theory Spec2Isabelle
  imports Main
begin

section \<open>The cached property descriptor of \<^verbatim>\<open>src/web/cached_property.py\<close>\<close>

text \<open>
  The class \<^verbatim>\<open>cached_property\<close> is a Python data descriptor. It holds three optional
  user functions (\<^verbatim>\<open>fget\<close>, \<^verbatim>\<open>fset\<close>, \<^verbatim>\<open>fdel\<close>) and a documentation string, and caches
  the value computed by \<^verbatim>\<open>fget\<close> inside the \<^verbatim>\<open>__dict__\<close> of the instance it is read on,
  under the key \<^verbatim>\<open>fget.__name__\<close>.

  The embedding makes the mutable instances explicit. A heap maps an object reference to
  the \<^verbatim>\<open>__dict__\<close> of that object; a user function receives the reference it is called on
  and the heap, and returns the heap it leaves behind, so it may change any attribute of
  any object, the cache slot included. Instances are ordinary objects, which have a
  \<^verbatim>\<open>__dict__\<close>, and the compute function is a function object, which has a \<^verbatim>\<open>__name__\<close>.
  User functions are taken to return normally (they neither raise nor loop). Every call the descriptor makes to a user function is appended
  to a log that user functions cannot touch, so that invocations can be counted.
\<close>

subsection \<open>Data model\<close>

type_synonym 'v pydict = "string \<rightharpoonup> 'v"

type_synonym 'v heap = "nat \<Rightarrow> 'v pydict"

text \<open>The three kinds of user function, as Python passes their arguments.\<close>

type_synonym 'v get_body = "nat \<Rightarrow> 'v heap \<Rightarrow> 'v \<times> 'v heap"

type_synonym 'v set_body = "nat \<Rightarrow> 'v \<Rightarrow> 'v heap \<Rightarrow> 'v heap"

type_synonym 'v del_body = "nat \<Rightarrow> 'v heap \<Rightarrow> 'v heap"

text \<open>
  The function object bound to \<^verbatim>\<open>fget\<close>: the descriptor reads its \<^verbatim>\<open>__name__\<close> and
  \<^verbatim>\<open>__doc__\<close> and calls it. Of \<^verbatim>\<open>fset\<close> and \<^verbatim>\<open>fdel\<close> it only ever calls the body.
\<close>

record 'v func =
  func_name :: string
  func_doc :: "string option"
  func_body :: "'v get_body"

record 'v cached_property =
  fget :: "'v func option"
  fset :: "'v set_body option"
  fdel :: "'v del_body option"
  doc :: "string option"

text \<open>One entry of the call log: which user function ran, on which object, with which value.\<close>

datatype 'v call = Fget_call nat | Fset_call nat 'v | Fdel_call nat

record 'v world =
  heap :: "'v heap"
  calls :: "'v call list"

text \<open>
  Every exception the class can raise is an \<^verbatim>\<open>AttributeError\<close>; they differ in their
  message. The first three are raised by the class itself (lines 97, 108, 115). The fourth
  is what the interpreter raises for \<^verbatim>\<open>self.fget.__name__\<close> when \<^verbatim>\<open>self.fget\<close> is
  \<^verbatim>\<open>None\<close>.
\<close>

datatype error = AttributeError string

definition Unreadable :: error where
  "Unreadable = AttributeError ''unreadable attribute''"

definition Unwritable :: error where
  "Unwritable = AttributeError ''can't set attribute''"

definition Undeletable :: error where
  "Undeletable = AttributeError ''can't delete attribute''"

definition NoneType_has_no_name :: error where
  "NoneType_has_no_name =
     AttributeError (CHR 0x27 # ''NoneType' object has no attribute '__name__'' @ [CHR 0x27])"

text \<open>What \<^verbatim>\<open>__get__\<close> returns: the descriptor itself, or a value of the instance.\<close>

datatype 'v got = Self "'v cached_property" | Value 'v

subsection \<open>The methods\<close>

text \<open>\<^verbatim>\<open>__init__\<close> (lines 85 to 91): the documentation defaults to that of \<^verbatim>\<open>fget\<close>.\<close>

definition init ::
  "'v func option \<Rightarrow> 'v set_body option \<Rightarrow> 'v del_body option \<Rightarrow> string option
     \<Rightarrow> 'v cached_property" where
  "init fget' fset' fdel' doc' =
     \<lparr>fget = fget', fset = fset', fdel = fdel',
      doc = (case (doc', fget') of (None, Some g) \<Rightarrow> func_doc g | _ \<Rightarrow> doc')\<rparr>"

text \<open>
  \<^verbatim>\<open>__get__\<close> (lines 93 to 104). The argument \<^verbatim>\<open>obj\<close> is \<^verbatim>\<open>None\<close> when the attribute is
  looked up on the class. On an instance the slot \<^verbatim>\<open>obj.__dict__[fget.__name__]\<close> is
  returned when present; otherwise \<^verbatim>\<open>fget(obj)\<close> is called and its result is stored in the
  \<^verbatim>\<open>__dict__\<close> the call left behind.
\<close>

fun cached_property_get ::
  "'v cached_property \<Rightarrow> nat option \<Rightarrow> 'v world \<Rightarrow> (error + 'v got) \<times> 'v world" where
  "cached_property_get self None w = (Inr (Self self), w)"
| "cached_property_get self (Some obj) w =
     (case fget self of
        None \<Rightarrow> (Inl Unreadable, w)
      | Some g \<Rightarrow>
          (case heap w obj (func_name g) of
             Some v \<Rightarrow> (Inr (Value v), w)
           | None \<Rightarrow>
               (case func_body g obj (heap w) of
                  (v, h) \<Rightarrow>
                    (Inr (Value v),
                     \<lparr>heap = h(obj := (h obj)(func_name g \<mapsto> v)),
                      calls = calls w @ [Fget_call obj]\<rparr>))))"

text \<open>
  \<^verbatim>\<open>__set__\<close> (lines 106 to 111). The attribute protocol always supplies an instance.
  After \<^verbatim>\<open>fset\<close> has run, \<^verbatim>\<open>self.fget.__name__\<close> is read without a check of
  \<^verbatim>\<open>self.fget\<close>: on \<^verbatim>\<open>None\<close> the interpreter raises. Otherwise the slot is deleted from
  the \<^verbatim>\<open>__dict__\<close> that \<^verbatim>\<open>fset\<close> left behind, when it is there.
\<close>

definition cached_property_set ::
  "'v cached_property \<Rightarrow> nat \<Rightarrow> 'v \<Rightarrow> 'v world \<Rightarrow> (error + unit) \<times> 'v world" where
  "cached_property_set self obj v w =
     (case fset self of
        None \<Rightarrow> (Inl Unwritable, w)
      | Some s \<Rightarrow>
          (case s obj v (heap w) of
             h \<Rightarrow>
               (case fget self of
                  None \<Rightarrow>
                    (Inl NoneType_has_no_name,
                     \<lparr>heap = h, calls = calls w @ [Fset_call obj v]\<rparr>)
                | Some g \<Rightarrow>
                    (case h obj (func_name g) of
                       Some cached \<Rightarrow>
                         (Inr (),
                          \<lparr>heap = h(obj := (h obj)(func_name g := None)),
                           calls = calls w @ [Fset_call obj v]\<rparr>)
                     | None \<Rightarrow>
                         (Inr (), \<lparr>heap = h, calls = calls w @ [Fset_call obj v]\<rparr>)))))"

text \<open>\<^verbatim>\<open>__delete__\<close> (lines 113 to 118), built like \<^verbatim>\<open>__set__\<close>.\<close>

definition cached_property_delete ::
  "'v cached_property \<Rightarrow> nat \<Rightarrow> 'v world \<Rightarrow> (error + unit) \<times> 'v world" where
  "cached_property_delete self obj w =
     (case fdel self of
        None \<Rightarrow> (Inl Undeletable, w)
      | Some d \<Rightarrow>
          (case d obj (heap w) of
             h \<Rightarrow>
               (case fget self of
                  None \<Rightarrow>
                    (Inl NoneType_has_no_name,
                     \<lparr>heap = h, calls = calls w @ [Fdel_call obj]\<rparr>)
                | Some g \<Rightarrow>
                    (case h obj (func_name g) of
                       Some cached \<Rightarrow>
                         (Inr (),
                          \<lparr>heap = h(obj := (h obj)(func_name g := None)),
                           calls = calls w @ [Fdel_call obj]\<rparr>)
                     | None \<Rightarrow>
                         (Inr (), \<lparr>heap = h, calls = calls w @ [Fdel_call obj]\<rparr>)))))"

text \<open>
  \<^verbatim>\<open>getter\<close>, \<^verbatim>\<open>setter\<close>, \<^verbatim>\<open>deleter\<close> (lines 120 to 127) build a new descriptor through
  \<^verbatim>\<open>__init__\<close>; nothing is assigned to \<^verbatim>\<open>self\<close>.
\<close>

definition getter :: "'v cached_property \<Rightarrow> 'v func option \<Rightarrow> 'v cached_property" where
  "getter self fget' = init fget' (fset self) (fdel self) (doc self)"

definition setter :: "'v cached_property \<Rightarrow> 'v set_body option \<Rightarrow> 'v cached_property" where
  "setter self fset' = init (fget self) fset' (fdel self) (doc self)"

definition deleter :: "'v cached_property \<Rightarrow> 'v del_body option \<Rightarrow> 'v cached_property" where
  "deleter self fdel' = init (fget self) (fset self) fdel' (doc self)"

subsection \<open>Observations used to state the properties\<close>

text \<open>
  The cache slot of a descriptor on an instance: the entry of the instance's \<^verbatim>\<open>__dict__\<close>
  under the name of the compute function. A descriptor without compute function has no slot.
\<close>

definition slot :: "'v cached_property \<Rightarrow> nat \<Rightarrow> 'v world \<Rightarrow> 'v option" where
  "slot self obj w = (case fget self of None \<Rightarrow> None | Some g \<Rightarrow> heap w obj (func_name g))"

text \<open>A run of \<open>n\<close> successive reads on one instance, with the outcomes in order.\<close>

fun reads ::
  "'v cached_property \<Rightarrow> nat \<Rightarrow> nat \<Rightarrow> 'v world \<Rightarrow> (error + 'v got) list \<times> 'v world" where
  "reads self obj 0 w = ([], w)"
| "reads self obj (Suc n) w =
     (case cached_property_get self (Some obj) w of
        (r, w') \<Rightarrow> (case reads self obj n w' of (rs, w'') \<Rightarrow> (r # rs, w'')))"

subsection \<open>The demonstration class\<close>

text \<open>
  The class \<^verbatim>\<open>Test\<close> of the source (lines 131 to 141): \<^verbatim>\<open>p\<close> reads and assigns the
  attribute \<^verbatim>\<open>_p\<close>, which \<^verbatim>\<open>__init__\<close> sets to 10. Reading \<^verbatim>\<open>self._p\<close> on an object
  without that attribute would raise; the body below returns 0 there, a case that no
  instance created by \<^verbatim>\<open>__init__\<close> reaches.
\<close>

definition Test_p_fget :: "int func" where
  "Test_p_fget =
     \<lparr>func_name = ''p'', func_doc = None,
      func_body = (\<lambda>self h. (case h self ''_p'' of Some x \<Rightarrow> x | None \<Rightarrow> 0, h))\<rparr>"

definition Test_p_fset :: "int set_body" where
  "Test_p_fset = (\<lambda>self v h. h(self := (h self)(''_p'' \<mapsto> v)))"

definition Test_p :: "int cached_property" where
  "Test_p = setter (init (Some Test_p_fget) None None None) (Some Test_p_fset)"

definition Test_new :: "int world" where
  "Test_new = \<lparr>heap = (\<lambda>_. Map.empty)(0 := [''_p'' \<mapsto> 10]), calls = []\<rparr>"

text \<open>The same object after \<^verbatim>\<open>p\<close> has been read once: the slot \<^verbatim>\<open>p\<close> holds 10.\<close>

definition Test_cached :: "int world" where
  "Test_cached =
     \<lparr>heap = (\<lambda>_. Map.empty)(0 := [''_p'' \<mapsto> 10, ''p'' \<mapsto> 10]), calls = [Fget_call 0]\<rparr>"

text \<open>
  Further inputs for the examples below: a delete function that resets \<^verbatim>\<open>_p\<close> to 0, a
  second compute function that is also named \<^verbatim>\<open>p\<close> but returns 7, a compute function that
  carries a docstring, and the descriptors built from them.
\<close>

definition reset_fdel :: "int del_body" where
  "reset_fdel = (\<lambda>self h. h(self := (h self)(''_p'' \<mapsto> 0)))"

definition other_p_fget :: "int func" where
  "other_p_fget = \<lparr>func_name = ''p'', func_doc = None, func_body = (\<lambda>self h. (7, h))\<rparr>"

definition documented_fget :: "int func" where
  "documented_fget =
     \<lparr>func_name = ''q'', func_doc = Some ''The q of the object.'',
      func_body = (\<lambda>self h. (1, h))\<rparr>"

definition Test_p_deletable :: "int cached_property" where
  "Test_p_deletable = deleter Test_p (Some reset_fdel)"

definition other_p :: "int cached_property" where
  "other_p = init (Some other_p_fget) (Some Test_p_fset) (Some reset_fdel) None"

definition write_only :: "int cached_property" where
  "write_only = init None (Some Test_p_fset) (Some reset_fdel) None"

definition unbound :: "int cached_property" where
  "unbound = init None None None None"

section \<open>Properties\<close>

subsection \<open>Auxiliary facts\<close>

lemma get_cached:
  assumes "fget self = Some g" and "heap w obj (func_name g) = Some v"
  shows "cached_property_get self (Some obj) w = (Inr (Value v), w)"
  using assms by simp

lemma get_fresh:
  assumes "fget self = Some g" and "heap w obj (func_name g) = None"
    and "func_body g obj (heap w) = (v, h)"
  shows "cached_property_get self (Some obj) w =
           (Inr (Value v),
            \<lparr>heap = h(obj := (h obj)(func_name g \<mapsto> v)), calls = calls w @ [Fget_call obj]\<rparr>)"
  using assms by simp

lemma reads_cached:
  assumes "fget self = Some g" and "heap w obj (func_name g) = Some v"
  shows "reads self obj n w = (replicate n (Inr (Value v)), w)"
  using assms by (induction n) simp_all

lemma reads_fresh:
  assumes "fget self = Some g" and "heap w obj (func_name g) = None"
    and "func_body g obj (heap w) = (v, h)"
  shows "reads self obj (Suc n) w =
           (replicate (Suc n) (Inr (Value v)),
            \<lparr>heap = h(obj := (h obj)(func_name g \<mapsto> v)), calls = calls w @ [Fget_call obj]\<rparr>)"
proof -
  let ?w = "\<lparr>heap = h(obj := (h obj)(func_name g \<mapsto> v)), calls = calls w @ [Fget_call obj]\<rparr>"
  have first: "cached_property_get self (Some obj) w = (Inr (Value v), ?w)"
    using assms by (rule get_fresh)
  have "heap ?w obj (func_name g) = Some v"
    by simp
  with assms(1) have "reads self obj n ?w = (replicate n (Inr (Value v)), ?w)"
    by (rule reads_cached)
  with first show ?thesis
    by simp
qed

lemma set_bound:
  assumes "fset self = Some s" and "fget self = Some g"
  shows "cached_property_set self obj v w =
           (Inr (),
            \<lparr>heap = (s obj v (heap w))(obj := (s obj v (heap w) obj)(func_name g := None)),
             calls = calls w @ [Fset_call obj v]\<rparr>)"
proof (cases "s obj v (heap w) obj (func_name g)")
  case None
  then have "(s obj v (heap w) obj)(func_name g := None) = s obj v (heap w) obj"
    by (simp add: fun_upd_idem)
  with None assms show ?thesis
    by (simp add: cached_property_set_def)
next
  case (Some cached)
  with assms show ?thesis
    by (simp add: cached_property_set_def)
qed

lemma delete_bound:
  assumes "fdel self = Some d" and "fget self = Some g"
  shows "cached_property_delete self obj w =
           (Inr (),
            \<lparr>heap = (d obj (heap w))(obj := (d obj (heap w) obj)(func_name g := None)),
             calls = calls w @ [Fdel_call obj]\<rparr>)"
proof (cases "d obj (heap w) obj (func_name g)")
  case None
  then have "(d obj (heap w) obj)(func_name g := None) = d obj (heap w) obj"
    by (simp add: fun_upd_idem)
  with None assms show ?thesis
    by (simp add: cached_property_delete_def)
next
  case (Some cached)
  with assms show ?thesis
    by (simp add: cached_property_delete_def)
qed

lemma set_no_compute:
  assumes "fset self = Some s" and "fget self = None"
  shows "cached_property_set self obj v w =
           (Inl NoneType_has_no_name,
            \<lparr>heap = s obj v (heap w), calls = calls w @ [Fset_call obj v]\<rparr>)"
  using assms by (simp add: cached_property_set_def)

lemma delete_no_compute:
  assumes "fdel self = Some d" and "fget self = None"
  shows "cached_property_delete self obj w =
           (Inl NoneType_has_no_name,
            \<lparr>heap = d obj (heap w), calls = calls w @ [Fdel_call obj]\<rparr>)"
  using assms by (simp add: cached_property_delete_def)

lemma errors_distinct:
  "NoneType_has_no_name \<noteq> Unreadable" "NoneType_has_no_name \<noteq> Unwritable"
  "NoneType_has_no_name \<noteq> Undeletable" "Unreadable \<noteq> Unwritable"
  "Unreadable \<noteq> Undeletable" "Unwritable \<noteq> Undeletable"
  by (simp_all add: NoneType_has_no_name_def Unreadable_def Unwritable_def Undeletable_def)

lemma Test_p_fields:
  "fget Test_p = Some Test_p_fget" "fset Test_p = Some Test_p_fset" "fdel Test_p = None"
  "doc Test_p = None"
  by (simp_all add: Test_p_def setter_def init_def Test_p_fget_def)

lemma Test_p_deletable_fields:
  "fget Test_p_deletable = Some Test_p_fget" "fset Test_p_deletable = Some Test_p_fset"
  "fdel Test_p_deletable = Some reset_fdel"
  by (simp_all add: Test_p_deletable_def deleter_def init_def Test_p_fields)

subsection \<open>The claims\<close>

text \<open>
  C1. Let a compute function be bound. A read on an instance whose slot holds a value
  returns that value and leaves the world, call log included, as it was. A read on an
  instance whose slot is empty calls the compute function once, stores what it returned
  in the slot and returns it. Hence a run of reads that starts on an empty slot logs
  exactly one call of the compute function and every read of the run returns what that
  call returned; a run that starts on a filled slot logs no call and returns the held value
  throughout.
\<close>

theorem read_computes_once_per_cycle:
  assumes "fget self = Some g"
  shows
    "(\<forall>v. slot self obj w = Some v \<longrightarrow>
        cached_property_get self (Some obj) w = (Inr (Value v), w))
     \<and> (slot self obj w = None \<longrightarrow>
          (case func_body g obj (heap w) of
             (v, h) \<Rightarrow>
               cached_property_get self (Some obj) w =
                 (Inr (Value v),
                  \<lparr>heap = h(obj := (h obj)(func_name g \<mapsto> v)),
                   calls = calls w @ [Fget_call obj]\<rparr>)))
     \<and> (slot self obj w = None \<longrightarrow>
          slot self obj (snd (cached_property_get self (Some obj) w)) =
            Some (fst (func_body g obj (heap w))))
     \<and> (\<forall>n. slot self obj w = None \<longrightarrow> 0 < n \<longrightarrow>
          fst (reads self obj n w) = replicate n (Inr (Value (fst (func_body g obj (heap w)))))
          \<and> calls (snd (reads self obj n w)) = calls w @ [Fget_call obj])
     \<and> (\<forall>n v. slot self obj w = Some v \<longrightarrow>
          reads self obj n w = (replicate n (Inr (Value v)), w))"
proof (intro conjI allI impI)
  fix v
  assume "slot self obj w = Some v"
  with assms show "cached_property_get self (Some obj) w = (Inr (Value v), w)"
    by (simp add: slot_def)
next
  assume "slot self obj w = None"
  with assms show
    "case func_body g obj (heap w) of
       (v, h) \<Rightarrow>
         cached_property_get self (Some obj) w =
           (Inr (Value v),
            \<lparr>heap = h(obj := (h obj)(func_name g \<mapsto> v)), calls = calls w @ [Fget_call obj]\<rparr>)"
    by (simp add: slot_def split: prod.splits)
next
  assume "slot self obj w = None"
  with assms show
    "slot self obj (snd (cached_property_get self (Some obj) w)) =
       Some (fst (func_body g obj (heap w)))"
    by (simp add: slot_def split: prod.splits)
next
  fix n :: nat
  assume empty: "slot self obj w = None" and pos: "0 < n"
  obtain v h where run: "func_body g obj (heap w) = (v, h)"
    by (cases "func_body g obj (heap w)")
  obtain m where n: "n = Suc m"
    using pos by (cases n) simp_all
  from assms empty have "heap w obj (func_name g) = None"
    by (simp add: slot_def)
  with assms have all: "reads self obj (Suc m) w =
      (replicate (Suc m) (Inr (Value v)),
       \<lparr>heap = h(obj := (h obj)(func_name g \<mapsto> v)), calls = calls w @ [Fget_call obj]\<rparr>)"
    using run by (rule reads_fresh)
  from all run n show
    "fst (reads self obj n w) = replicate n (Inr (Value (fst (func_body g obj (heap w)))))"
    by simp
  from all n show "calls (snd (reads self obj n w)) = calls w @ [Fget_call obj]"
    by simp
next
  fix n v
  assume "slot self obj w = Some v"
  with assms have "heap w obj (func_name g) = Some v"
    by (simp add: slot_def)
  with assms show "reads self obj n w = (replicate n (Inr (Value v)), w)"
    by (rule reads_cached)
qed

text \<open>
  The instances of C1 on a \<^verbatim>\<open>Test\<close> object. Fresh: three reads of \<^verbatim>\<open>p\<close> return 10 each
  and the compute function is called once. With the slot holding 10: a read, and two reads
  in a row, return 10 and leave the world as it was.
\<close>

theorem read_computes_once_per_cycle_witness:
  "fget Test_p = Some Test_p_fget
   \<and> slot Test_p 0 Test_new = None
   \<and> fst (reads Test_p 0 (Suc (Suc (Suc 0))) Test_new) =
       [Inr (Value 10), Inr (Value 10), Inr (Value 10)]
   \<and> calls (snd (reads Test_p 0 (Suc (Suc (Suc 0))) Test_new)) = [Fget_call 0]
   \<and> slot Test_p 0 Test_cached = Some 10
   \<and> cached_property_get Test_p (Some 0) Test_cached = (Inr (Value 10), Test_cached)
   \<and> reads Test_p 0 (Suc (Suc 0)) Test_cached = ([Inr (Value 10), Inr (Value 10)], Test_cached)"
proof -
  have bound: "fget Test_p = Some Test_p_fget"
    by (rule Test_p_fields)
  have empty: "slot Test_p 0 Test_new = None"
    by (simp add: slot_def Test_p_fields Test_p_fget_def Test_new_def)
  have held: "slot Test_p 0 Test_cached = Some 10"
    by (simp add: slot_def Test_p_fields Test_p_fget_def Test_cached_def)
  have ten: "fst (func_body Test_p_fget 0 (heap Test_new)) = 10"
    by (simp add: Test_p_fget_def Test_new_def)
  from read_computes_once_per_cycle [OF bound, of 0 Test_new] empty
  have "fst (reads Test_p 0 (Suc (Suc (Suc 0))) Test_new) =
          replicate (Suc (Suc (Suc 0)))
            (Inr (Value (fst (func_body Test_p_fget 0 (heap Test_new)))))
        \<and> calls (snd (reads Test_p 0 (Suc (Suc (Suc 0))) Test_new)) =
            calls Test_new @ [Fget_call 0]"
    by blast
  with ten have fresh:
    "fst (reads Test_p 0 (Suc (Suc (Suc 0))) Test_new) =
       [Inr (Value 10), Inr (Value 10), Inr (Value 10)]"
    "calls (snd (reads Test_p 0 (Suc (Suc (Suc 0))) Test_new)) = [Fget_call 0]"
    by (simp_all add: Test_new_def)
  from read_computes_once_per_cycle [OF bound, of 0 Test_cached] held
  have "cached_property_get Test_p (Some 0) Test_cached = (Inr (Value 10), Test_cached)
        \<and> reads Test_p 0 (Suc (Suc 0)) Test_cached =
            (replicate (Suc (Suc 0)) (Inr (Value 10)), Test_cached)"
    by blast
  then have cached:
    "cached_property_get Test_p (Some 0) Test_cached = (Inr (Value 10), Test_cached)"
    "reads Test_p 0 (Suc (Suc 0)) Test_cached = ([Inr (Value 10), Inr (Value 10)], Test_cached)"
    by simp_all
  from bound empty fresh held cached show ?thesis
    by blast
qed

text \<open>
  C2. A write through a descriptor with a bound write function calls that function
  exactly once, whatever the slot held before. When a compute function is bound as well,
  the write succeeds, the world it leaves is the one the write function produced with
  only the slot removed from the instance's \<^verbatim>\<open>__dict__\<close> (the written value is not stored
  there), and the read that follows calls the compute function on exactly that heap,
  stores its result and returns it.
\<close>

theorem write_invalidates:
  assumes "fset self = Some s"
  shows
    "calls (snd (cached_property_set self obj v w)) = calls w @ [Fset_call obj v]
     \<and> (\<forall>g. fget self = Some g \<longrightarrow>
          (let h = s obj v (heap w);
               w' = \<lparr>heap = h(obj := (h obj)(func_name g := None)),
                     calls = calls w @ [Fset_call obj v]\<rparr>
           in cached_property_set self obj v w = (Inr (), w')
              \<and> slot self obj w' = None
              \<and> (case func_body g obj (heap w') of
                    (x, h') \<Rightarrow>
                      cached_property_get self (Some obj) w' =
                        (Inr (Value x),
                         \<lparr>heap = h'(obj := (h' obj)(func_name g \<mapsto> x)),
                          calls = calls w @ [Fset_call obj v, Fget_call obj]\<rparr>))))"
proof (intro conjI allI impI)
  show "calls (snd (cached_property_set self obj v w)) = calls w @ [Fset_call obj v]"
  proof (cases "fget self")
    case None
    with assms show ?thesis
      by (simp add: set_no_compute)
  next
    case (Some g)
    with assms show ?thesis
      by (simp add: set_bound)
  qed
next
  fix g
  assume g: "fget self = Some g"
  let ?h = "s obj v (heap w)"
  let ?w = "\<lparr>heap = ?h(obj := (?h obj)(func_name g := None)),
             calls = calls w @ [Fset_call obj v]\<rparr>"
  have written: "cached_property_set self obj v w = (Inr (), ?w)"
    using assms g by (rule set_bound)
  have empty: "slot self obj ?w = None"
    using g by (simp add: slot_def)
  have "case func_body g obj (heap ?w) of
          (x, h') \<Rightarrow>
            cached_property_get self (Some obj) ?w =
              (Inr (Value x),
               \<lparr>heap = h'(obj := (h' obj)(func_name g \<mapsto> x)),
                calls = calls w @ [Fset_call obj v, Fget_call obj]\<rparr>)"
    using g by (simp split: prod.splits)
  with written empty show
    "let h = s obj v (heap w);
         w' = \<lparr>heap = h(obj := (h obj)(func_name g := None)),
               calls = calls w @ [Fset_call obj v]\<rparr>
     in cached_property_set self obj v w = (Inr (), w')
        \<and> slot self obj w' = None
        \<and> (case func_body g obj (heap w') of
              (x, h') \<Rightarrow>
                cached_property_get self (Some obj) w' =
                  (Inr (Value x),
                   \<lparr>heap = h'(obj := (h' obj)(func_name g \<mapsto> x)),
                    calls = calls w @ [Fset_call obj v, Fget_call obj]\<rparr>))"
    unfolding Let_def by blast
qed

text \<open>
  The instance of C2 on a \<^verbatim>\<open>Test\<close> object whose slot holds 10: writing 20 calls the write
  function once and empties the slot, and the next read computes again and returns 20.
\<close>

theorem write_invalidates_witness:
  "fset Test_p = Some Test_p_fset
   \<and> slot Test_p 0 Test_cached = Some 10
   \<and> fst (cached_property_set Test_p 0 20 Test_cached) = Inr ()
   \<and> calls (snd (cached_property_set Test_p 0 20 Test_cached)) = [Fget_call 0, Fset_call 0 20]
   \<and> slot Test_p 0 (snd (cached_property_set Test_p 0 20 Test_cached)) = None
   \<and> fst (cached_property_get Test_p (Some 0) (snd (cached_property_set Test_p 0 20 Test_cached)))
       = Inr (Value 20)
   \<and> calls (snd (cached_property_get Test_p (Some 0)
                    (snd (cached_property_set Test_p 0 20 Test_cached))))
       = [Fget_call 0, Fset_call 0 20, Fget_call 0]"
proof -
  have bound: "fset Test_p = Some Test_p_fset"
    by (rule Test_p_fields)
  from write_invalidates [OF bound, of 0 20 Test_cached] Test_p_fields(1)
  show ?thesis
    by (simp add: Let_def slot_def Test_p_fields Test_p_fget_def Test_p_fset_def
        Test_cached_def)
qed

text \<open>
  C3. A delete through a descriptor with a bound remove function calls that function
  exactly once. When a compute function is bound as well, the delete succeeds, the world
  it leaves is the one the remove function produced with only the slot removed from the
  instance's \<^verbatim>\<open>__dict__\<close>, and the read that follows calls the compute function again.
\<close>

theorem delete_invalidates:
  assumes "fdel self = Some d"
  shows
    "calls (snd (cached_property_delete self obj w)) = calls w @ [Fdel_call obj]
     \<and> (\<forall>g. fget self = Some g \<longrightarrow>
          (let h = d obj (heap w);
               w' = \<lparr>heap = h(obj := (h obj)(func_name g := None)),
                     calls = calls w @ [Fdel_call obj]\<rparr>
           in cached_property_delete self obj w = (Inr (), w')
              \<and> slot self obj w' = None
              \<and> (case func_body g obj (heap w') of
                    (x, h') \<Rightarrow>
                      cached_property_get self (Some obj) w' =
                        (Inr (Value x),
                         \<lparr>heap = h'(obj := (h' obj)(func_name g \<mapsto> x)),
                          calls = calls w @ [Fdel_call obj, Fget_call obj]\<rparr>))))"
proof (intro conjI allI impI)
  show "calls (snd (cached_property_delete self obj w)) = calls w @ [Fdel_call obj]"
  proof (cases "fget self")
    case None
    with assms show ?thesis
      by (simp add: delete_no_compute)
  next
    case (Some g)
    with assms show ?thesis
      by (simp add: delete_bound)
  qed
next
  fix g
  assume g: "fget self = Some g"
  let ?h = "d obj (heap w)"
  let ?w = "\<lparr>heap = ?h(obj := (?h obj)(func_name g := None)),
             calls = calls w @ [Fdel_call obj]\<rparr>"
  have removed: "cached_property_delete self obj w = (Inr (), ?w)"
    using assms g by (rule delete_bound)
  have empty: "slot self obj ?w = None"
    using g by (simp add: slot_def)
  have "case func_body g obj (heap ?w) of
          (x, h') \<Rightarrow>
            cached_property_get self (Some obj) ?w =
              (Inr (Value x),
               \<lparr>heap = h'(obj := (h' obj)(func_name g \<mapsto> x)),
                calls = calls w @ [Fdel_call obj, Fget_call obj]\<rparr>)"
    using g by (simp split: prod.splits)
  with removed empty show
    "let h = d obj (heap w);
         w' = \<lparr>heap = h(obj := (h obj)(func_name g := None)),
               calls = calls w @ [Fdel_call obj]\<rparr>
     in cached_property_delete self obj w = (Inr (), w')
        \<and> slot self obj w' = None
        \<and> (case func_body g obj (heap w') of
              (x, h') \<Rightarrow>
                cached_property_get self (Some obj) w' =
                  (Inr (Value x),
                   \<lparr>heap = h'(obj := (h' obj)(func_name g \<mapsto> x)),
                    calls = calls w @ [Fdel_call obj, Fget_call obj]\<rparr>))"
    unfolding Let_def by blast
qed

text \<open>
  The instance of C3 on a \<^verbatim>\<open>Test\<close> object whose slot holds 10, with a remove function
  that resets \<^verbatim>\<open>_p\<close> to 0: the delete empties the slot and the next read computes 0.
\<close>

theorem delete_invalidates_witness:
  "fdel Test_p_deletable = Some reset_fdel
   \<and> slot Test_p_deletable 0 Test_cached = Some 10
   \<and> fst (cached_property_delete Test_p_deletable 0 Test_cached) = Inr ()
   \<and> calls (snd (cached_property_delete Test_p_deletable 0 Test_cached))
       = [Fget_call 0, Fdel_call 0]
   \<and> slot Test_p_deletable 0 (snd (cached_property_delete Test_p_deletable 0 Test_cached)) = None
   \<and> fst (cached_property_get Test_p_deletable (Some 0)
            (snd (cached_property_delete Test_p_deletable 0 Test_cached)))
       = Inr (Value 0)
   \<and> calls (snd (cached_property_get Test_p_deletable (Some 0)
                    (snd (cached_property_delete Test_p_deletable 0 Test_cached))))
       = [Fget_call 0, Fdel_call 0, Fget_call 0]"
proof -
  have bound: "fdel Test_p_deletable = Some reset_fdel"
    by (rule Test_p_deletable_fields)
  from delete_invalidates [OF bound, of 0 Test_cached] Test_p_deletable_fields(1)
  show ?thesis
    by (simp add: Let_def slot_def Test_p_deletable_fields Test_p_fget_def reset_fdel_def
        Test_cached_def)
qed

text \<open>
  C4. On an instance, a read with no compute function raises the unreadable error, a
  write with no write function raises the unwritable error and a delete with no remove
  function raises the undeletable error. In each case the world is returned as it was:
  nothing is added to the call log and no \<^verbatim>\<open>__dict__\<close> changes, the slot included.
\<close>

theorem unbound_operation_raises:
  "(fget self = None \<longrightarrow> cached_property_get self (Some obj) w = (Inl Unreadable, w))
   \<and> (fset self = None \<longrightarrow> cached_property_set self obj v w = (Inl Unwritable, w))
   \<and> (fdel self = None \<longrightarrow> cached_property_delete self obj w = (Inl Undeletable, w))"
  by (simp add: cached_property_set_def cached_property_delete_def)

text \<open>The instance of C4 on the descriptor with no function bound at all.\<close>

theorem unbound_operation_raises_witness:
  "fget unbound = None \<and> fset unbound = None \<and> fdel unbound = None
   \<and> cached_property_get unbound (Some 0) Test_cached = (Inl Unreadable, Test_cached)
   \<and> cached_property_set unbound 0 20 Test_cached = (Inl Unwritable, Test_cached)
   \<and> cached_property_delete unbound 0 Test_cached = (Inl Undeletable, Test_cached)"
proof -
  have none: "fget unbound = None" "fset unbound = None" "fdel unbound = None"
    by (simp_all add: unbound_def init_def)
  with unbound_operation_raises [of unbound 0 Test_cached 20] show ?thesis
    by blast
qed

text \<open>
  C5. The claim is that reads, writes and deletes can only fail with the unreadable, the
  unwritable or the undeletable error and never leave a partial effect. The code breaks
  it on a descriptor with a write function and no compute function: on a fresh \<^verbatim>\<open>Test\<close>
  object the write of 20 first runs the write function, which sets \<^verbatim>\<open>_p\<close> to 20, and
  then raises the interpreter's error for \<^verbatim>\<open>None.__name__\<close>, which is none of the three.
  Line 96 checks \<^verbatim>\<open>self.fget\<close> before its name is read; lines 110 and 117 do not.
\<close>

theorem write_only_set_raises_after_write:
  "fget write_only = None
   \<and> fset write_only = Some Test_p_fset
   \<and> fst (cached_property_set write_only 0 20 Test_new) = Inl NoneType_has_no_name
   \<and> NoneType_has_no_name \<noteq> Unreadable
   \<and> NoneType_has_no_name \<noteq> Unwritable
   \<and> NoneType_has_no_name \<noteq> Undeletable
   \<and> heap Test_new 0 ''_p'' = Some 10
   \<and> heap (snd (cached_property_set write_only 0 20 Test_new)) 0 ''_p'' = Some 20
   \<and> calls (snd (cached_property_set write_only 0 20 Test_new)) = [Fset_call 0 20]"
proof -
  have fields: "fget write_only = None" "fset write_only = Some Test_p_fset"
    by (simp_all add: write_only_def init_def)
  have "cached_property_set write_only 0 20 Test_new =
          (Inl NoneType_has_no_name,
           \<lparr>heap = Test_p_fset 0 20 (heap Test_new), calls = calls Test_new @ [Fset_call 0 20]\<rparr>)"
    using fields(2) fields(1) by (rule set_no_compute)
  with fields errors_distinct show ?thesis
    by (simp add: Test_p_fset_def Test_new_def)
qed

text \<open>
  C6. The slot is one entry of the instance's \<^verbatim>\<open>__dict__\<close>, so it is empty or holds one
  value. A read that succeeds on an instance returns a value and leaves the slot holding
  that value; when the slot already held a value the read leaves it as it was. A write
  or a delete that succeeds leaves the slot empty, whatever it held before.
\<close>

theorem slot_has_two_states:
  "(cached_property_get self (Some obj) w = (Inr r, w1) \<longrightarrow>
      (\<exists>x. r = Value x \<and> slot self obj w1 = Some x)
      \<and> (\<forall>x. slot self obj w = Some x \<longrightarrow> slot self obj w1 = Some x))
   \<and> (cached_property_set self obj v w = (Inr u, w2) \<longrightarrow> slot self obj w2 = None)
   \<and> (cached_property_delete self obj w = (Inr u, w3) \<longrightarrow> slot self obj w3 = None)"
proof (intro conjI impI)
  assume ok: "cached_property_get self (Some obj) w = (Inr r, w1)"
  then obtain g where g: "fget self = Some g"
    by (cases "fget self") simp_all
  show "\<exists>x. r = Value x \<and> slot self obj w1 = Some x"
  proof (cases "heap w obj (func_name g)")
    case None
    obtain x h where "func_body g obj (heap w) = (x, h)"
      by (cases "func_body g obj (heap w)")
    with g None ok show ?thesis
      by (auto simp: slot_def)
  next
    case (Some x)
    with g ok show ?thesis
      by (auto simp: slot_def)
  qed
  show "\<forall>x. slot self obj w = Some x \<longrightarrow> slot self obj w1 = Some x"
    using g ok by (auto simp: slot_def)
next
  assume ok: "cached_property_set self obj v w = (Inr u, w2)"
  then obtain s where s: "fset self = Some s"
    by (cases "fset self") (simp_all add: cached_property_set_def)
  from ok s obtain g where g: "fget self = Some g"
    by (cases "fget self") (simp_all add: set_no_compute)
  from ok show "slot self obj w2 = None"
    unfolding set_bound [OF s g] using g by (auto simp: slot_def)
next
  assume ok: "cached_property_delete self obj w = (Inr u, w3)"
  then obtain d where d: "fdel self = Some d"
    by (cases "fdel self") (simp_all add: cached_property_delete_def)
  from ok d obtain g where g: "fget self = Some g"
    by (cases "fget self") (simp_all add: delete_no_compute)
  from ok show "slot self obj w3 = None"
    unfolding delete_bound [OF d g] using g by (auto simp: slot_def)
qed

text \<open>
  The instances of C6 on a \<^verbatim>\<open>Test\<close> object. With the slot holding 10: the read succeeds
  and the slot still holds 10, the write and the delete succeed and the slot is empty.
  Fresh: the read succeeds and the slot, empty before, holds 10.
\<close>

theorem slot_has_two_states_witness:
  "fst (cached_property_get Test_p_deletable (Some 0) Test_cached) = Inr (Value 10)
   \<and> slot Test_p_deletable 0 Test_cached = Some 10
   \<and> slot Test_p_deletable 0 (snd (cached_property_get Test_p_deletable (Some 0) Test_cached))
       = Some 10
   \<and> fst (cached_property_set Test_p_deletable 0 20 Test_cached) = Inr ()
   \<and> slot Test_p_deletable 0 (snd (cached_property_set Test_p_deletable 0 20 Test_cached)) = None
   \<and> fst (cached_property_delete Test_p_deletable 0 Test_cached) = Inr ()
   \<and> slot Test_p_deletable 0 (snd (cached_property_delete Test_p_deletable 0 Test_cached)) = None
   \<and> slot Test_p_deletable 0 Test_new = None
   \<and> fst (cached_property_get Test_p_deletable (Some 0) Test_new) = Inr (Value 10)
   \<and> slot Test_p_deletable 0 (snd (cached_property_get Test_p_deletable (Some 0) Test_new))
       = Some 10"
proof -
  have held: "heap Test_cached 0 (func_name Test_p_fget) = Some 10"
    by (simp add: Test_p_fget_def Test_cached_def)
  have slot_held: "slot Test_p_deletable 0 Test_cached = Some 10"
    using held by (simp add: slot_def Test_p_deletable_fields)
  have slot_empty: "slot Test_p_deletable 0 Test_new = None"
    by (simp add: slot_def Test_p_deletable_fields Test_p_fget_def Test_new_def)
  have got: "cached_property_get Test_p_deletable (Some 0) Test_cached =
               (Inr (Value 10), snd (cached_property_get Test_p_deletable (Some 0) Test_cached))"
    using get_cached [OF Test_p_deletable_fields(1) held] by simp
  have computed: "cached_property_get Test_p_deletable (Some 0) Test_new =
               (Inr (Value 10), snd (cached_property_get Test_p_deletable (Some 0) Test_new))"
    by (simp add: Test_p_deletable_fields Test_p_fget_def Test_new_def)
  have written: "cached_property_set Test_p_deletable 0 20 Test_cached =
                   (Inr (), snd (cached_property_set Test_p_deletable 0 20 Test_cached))"
    using set_bound [OF Test_p_deletable_fields(2) Test_p_deletable_fields(1), of 0 20 Test_cached]
    by simp
  have removed: "cached_property_delete Test_p_deletable 0 Test_cached =
                   (Inr (), snd (cached_property_delete Test_p_deletable 0 Test_cached))"
    using delete_bound [OF Test_p_deletable_fields(3) Test_p_deletable_fields(1), of 0 Test_cached]
    by simp
  from slot_has_two_states
         [of Test_p_deletable 0 Test_cached "Value 10"
             "snd (cached_property_get Test_p_deletable (Some 0) Test_cached)" 20 "()"
             "snd (cached_property_set Test_p_deletable 0 20 Test_cached)"
             "snd (cached_property_delete Test_p_deletable 0 Test_cached)"]
       got written removed slot_held
  have on_cached:
    "slot Test_p_deletable 0 (snd (cached_property_get Test_p_deletable (Some 0) Test_cached))
       = Some 10
     \<and> slot Test_p_deletable 0 (snd (cached_property_set Test_p_deletable 0 20 Test_cached))
       = None
     \<and> slot Test_p_deletable 0 (snd (cached_property_delete Test_p_deletable 0 Test_cached))
       = None"
    by blast
  from slot_has_two_states
         [of Test_p_deletable 0 Test_new "Value 10"
             "snd (cached_property_get Test_p_deletable (Some 0) Test_new)"]
       computed
  have on_new:
    "slot Test_p_deletable 0 (snd (cached_property_get Test_p_deletable (Some 0) Test_new))
       = Some 10"
    by blast
  have "fst (cached_property_get Test_p_deletable (Some 0) Test_cached) = Inr (Value 10)"
    using got by (metis fst_conv)
  moreover have "fst (cached_property_set Test_p_deletable 0 20 Test_cached) = Inr ()"
    using written by (metis fst_conv)
  moreover have "fst (cached_property_delete Test_p_deletable 0 Test_cached) = Inr ()"
    using removed by (metis fst_conv)
  moreover have "fst (cached_property_get Test_p_deletable (Some 0) Test_new) = Inr (Value 10)"
    using computed by (metis fst_conv)
  ultimately show ?thesis
    using slot_held slot_empty on_cached on_new by blast
qed

text \<open>
  C7, as the spec states it, fails on the documentation: \<^verbatim>\<open>getter\<close> goes through
  \<^verbatim>\<open>__init__\<close>, which replaces a missing documentation by the docstring of the new compute
  function. Rebinding the compute function of the descriptor that has no documentation to
  a function with a docstring gives a descriptor that has that docstring.
\<close>

theorem getter_documentation_counterexample:
  "doc unbound = None
   \<and> doc (getter unbound (Some documented_fget)) = Some ''The q of the object.''
   \<and> doc (getter unbound (Some documented_fget)) \<noteq> doc unbound"
  by (simp add: unbound_def getter_def init_def documented_fget_def)

text \<open>
  C7, amended. Each of \<^verbatim>\<open>getter\<close>, \<^verbatim>\<open>setter\<close>, \<^verbatim>\<open>deleter\<close> returns a descriptor in which
  exactly the named binding is replaced and the other two are those of the original. For
  a descriptor built by the constructor, \<^verbatim>\<open>setter\<close> and \<^verbatim>\<open>deleter\<close> keep its
  documentation; \<^verbatim>\<open>getter\<close> keeps it when there is one and otherwise takes the docstring
  of the new compute function. Reads and deletes on an instance through the descriptor
  returned by \<^verbatim>\<open>setter\<close> do what they do through the original. The original is a value
  and is not changed.
\<close>

theorem rebind_replaces_one_binding:
  "fget (getter self g') = g' \<and> fset (getter self g') = fset self
   \<and> fdel (getter self g') = fdel self
   \<and> fget (setter self s') = fget self \<and> fset (setter self s') = s'
   \<and> fdel (setter self s') = fdel self
   \<and> fget (deleter self d') = fget self \<and> fset (deleter self d') = fset self
   \<and> fdel (deleter self d') = d'
   \<and> (self = init a b c e \<longrightarrow>
        doc (setter self s') = doc self \<and> doc (deleter self d') = doc self)
   \<and> doc (getter self g') =
       (if doc self = None then (case g' of None \<Rightarrow> None | Some g \<Rightarrow> func_doc g)
        else doc self)
   \<and> cached_property_get (setter self s') (Some obj) w = cached_property_get self (Some obj) w
   \<and> cached_property_delete (setter self s') obj w = cached_property_delete self obj w"
proof -
  have bindings:
    "fget (getter self g') = g'" "fset (getter self g') = fset self"
    "fdel (getter self g') = fdel self"
    "fget (setter self s') = fget self" "fset (setter self s') = s'"
    "fdel (setter self s') = fdel self"
    "fget (deleter self d') = fget self" "fset (deleter self d') = fset self"
    "fdel (deleter self d') = d'"
    by (simp_all add: getter_def setter_def deleter_def init_def)
  have docs: "self = init a b c e \<longrightarrow>
      doc (setter self s') = doc self \<and> doc (deleter self d') = doc self"
    by (auto simp: setter_def deleter_def init_def split: option.splits)
  have new_doc: "doc (getter self g') =
      (if doc self = None then (case g' of None \<Rightarrow> None | Some g \<Rightarrow> func_doc g)
       else doc self)"
    by (auto simp: getter_def init_def split: option.splits)
  have same_get:
    "cached_property_get (setter self s') (Some obj) w = cached_property_get self (Some obj) w"
    by (simp add: bindings)
  have same_delete:
    "cached_property_delete (setter self s') obj w = cached_property_delete self obj w"
    by (simp add: cached_property_delete_def bindings cong: option.case_cong)
  from bindings docs new_doc same_get same_delete show ?thesis
    by blast
qed

text \<open>
  The instance of amended C7 on the descriptor built from the documented compute
  function alone: attaching a write or a remove function keeps its documentation.
\<close>

theorem rebind_replaces_one_binding_witness:
  "doc (init (Some documented_fget) None None None) = Some ''The q of the object.''
   \<and> doc (setter (init (Some documented_fget) None None None) (Some Test_p_fset))
       = Some ''The q of the object.''
   \<and> doc (deleter (init (Some documented_fget) None None None) (Some reset_fdel))
       = Some ''The q of the object.''"
proof -
  have documented: "doc (init (Some documented_fget) None None None) = Some ''The q of the object.''"
    by (simp add: init_def documented_fget_def)
  from rebind_replaces_one_binding
         [of "init (Some documented_fget) None None None" _ "Some Test_p_fset"
             "Some reset_fdel" "Some documented_fget" None None None]
  have "doc (setter (init (Some documented_fget) None None None) (Some Test_p_fset))
          = doc (init (Some documented_fget) None None None)
        \<and> doc (deleter (init (Some documented_fget) None None None) (Some reset_fdel))
          = doc (init (Some documented_fget) None None None)"
    by blast
  with documented show ?thesis
    by simp
qed

text \<open>
  C8. Two descriptors whose compute functions have the same name use the same entry of
  the instance's \<^verbatim>\<open>__dict__\<close>: their slots are equal in every world; after a read through
  the first has filled the empty slot, a read through the second returns that same value
  and calls nothing; and a write or a delete through the second empties the slot of the
  first.
\<close>

theorem same_name_slots_collide:
  assumes "fget a = Some ga" and "fget b = Some gb" and "func_name ga = func_name gb"
  shows
    "slot a obj w = slot b obj w
     \<and> (slot a obj w = None \<longrightarrow>
          cached_property_get b (Some obj) (snd (cached_property_get a (Some obj) w)) =
            cached_property_get a (Some obj) w)
     \<and> (\<forall>s. fset b = Some s \<longrightarrow> slot a obj (snd (cached_property_set b obj v w)) = None)
     \<and> (\<forall>d. fdel b = Some d \<longrightarrow> slot a obj (snd (cached_property_delete b obj w)) = None)"
proof (intro conjI allI impI)
  show "slot a obj w = slot b obj w"
    using assms by (simp add: slot_def)
next
  assume "slot a obj w = None"
  with assms(1) have empty: "heap w obj (func_name ga) = None"
    by (simp add: slot_def)
  obtain x h where run: "func_body ga obj (heap w) = (x, h)"
    by (cases "func_body ga obj (heap w)")
  let ?w = "\<lparr>heap = h(obj := (h obj)(func_name ga \<mapsto> x)), calls = calls w @ [Fget_call obj]\<rparr>"
  have first: "cached_property_get a (Some obj) w = (Inr (Value x), ?w)"
    using assms(1) empty run by (rule get_fresh)
  have "heap ?w obj (func_name gb) = Some x"
    using assms(3) by simp
  with assms(2) have "cached_property_get b (Some obj) ?w = (Inr (Value x), ?w)"
    by (rule get_cached)
  with first show
    "cached_property_get b (Some obj) (snd (cached_property_get a (Some obj) w)) =
       cached_property_get a (Some obj) w"
    by simp
next
  fix s
  assume "fset b = Some s"
  then show "slot a obj (snd (cached_property_set b obj v w)) = None"
    using assms by (simp add: set_bound slot_def)
next
  fix d
  assume "fdel b = Some d"
  then show "slot a obj (snd (cached_property_delete b obj w)) = None"
    using assms by (simp add: delete_bound slot_def)
qed

text \<open>
  The instance of C8 on a \<^verbatim>\<open>Test\<close> object with two descriptors whose compute functions
  are both named \<^verbatim>\<open>p\<close>; one computes 10 there and the other 7. After a read through the
  first, a read through the second returns 10 and the log holds one call; a write
  through the second empties the slot the first reads.
\<close>

theorem same_name_slots_collide_witness:
  "fget Test_p_deletable = Some Test_p_fget
   \<and> fget other_p = Some other_p_fget
   \<and> func_name Test_p_fget = func_name other_p_fget
   \<and> fst (func_body Test_p_fget 0 (heap Test_new)) = 10
   \<and> fst (func_body other_p_fget 0 (heap Test_new)) = 7
   \<and> slot Test_p_deletable 0 Test_new = None
   \<and> fst (cached_property_get other_p (Some 0)
            (snd (cached_property_get Test_p_deletable (Some 0) Test_new))) = Inr (Value 10)
   \<and> calls (snd (cached_property_get other_p (Some 0)
                   (snd (cached_property_get Test_p_deletable (Some 0) Test_new))))
       = [Fget_call 0]
   \<and> slot Test_p_deletable 0 Test_cached = Some 10
   \<and> slot Test_p_deletable 0 (snd (cached_property_set other_p 0 20 Test_cached)) = None
   \<and> slot Test_p_deletable 0 (snd (cached_property_delete other_p 0 Test_cached)) = None"
proof -
  have other: "fget other_p = Some other_p_fget" "fset other_p = Some Test_p_fset"
    "fdel other_p = Some reset_fdel"
    by (simp_all add: other_p_def init_def)
  have names: "func_name Test_p_fget = func_name other_p_fget"
    by (simp add: Test_p_fget_def other_p_fget_def)
  have computes: "fst (func_body Test_p_fget 0 (heap Test_new)) = 10"
    "fst (func_body other_p_fget 0 (heap Test_new)) = 7"
    by (simp_all add: Test_p_fget_def other_p_fget_def Test_new_def)
  have empty: "slot Test_p_deletable 0 Test_new = None"
    by (simp add: slot_def Test_p_deletable_fields Test_p_fget_def Test_new_def)
  have held: "slot Test_p_deletable 0 Test_cached = Some 10"
    by (simp add: slot_def Test_p_deletable_fields Test_p_fget_def Test_cached_def)
  have first: "cached_property_get Test_p_deletable (Some 0) Test_new =
      (Inr (Value 10),
       \<lparr>heap = (heap Test_new)(0 := (heap Test_new 0)(''p'' \<mapsto> 10)), calls = [Fget_call 0]\<rparr>)"
    by (simp add: Test_p_deletable_fields Test_p_fget_def Test_new_def)
  note collide = same_name_slots_collide [OF Test_p_deletable_fields(1) other(1) names]
  from collide [of 0 Test_new] empty
  have "cached_property_get other_p (Some 0)
          (snd (cached_property_get Test_p_deletable (Some 0) Test_new)) =
        cached_property_get Test_p_deletable (Some 0) Test_new"
    by blast
  with first have second:
    "fst (cached_property_get other_p (Some 0)
            (snd (cached_property_get Test_p_deletable (Some 0) Test_new))) = Inr (Value 10)"
    "calls (snd (cached_property_get other_p (Some 0)
                   (snd (cached_property_get Test_p_deletable (Some 0) Test_new))))
       = [Fget_call 0]"
    by simp_all
  from collide [of 0 Test_cached 20] other
  have cleared:
    "slot Test_p_deletable 0 (snd (cached_property_set other_p 0 20 Test_cached)) = None"
    "slot Test_p_deletable 0 (snd (cached_property_delete other_p 0 Test_cached)) = None"
    by blast+
  from Test_p_deletable_fields(1) other(1) names computes empty second held cleared
  show ?thesis
    by blast
qed

text \<open>
  C9. A read at class level, where no instance is supplied, returns the descriptor
  itself, calls no user function and changes nothing; it does not raise, whether or not a
  compute function is bound.
\<close>

theorem class_level_get_returns_self:
  "cached_property_get self None w = (Inr (Self self), w)"
  by simp

text \<open>
  C10. When a write function is bound and no compute function is, a write on an
  instance runs the write function and then raises the interpreter's attribute error for
  \<^verbatim>\<open>None.__name__\<close>; the world returned with the error is the one the write function
  produced, with its call in the log. The same holds for a delete with a remove function
  bound.
\<close>

theorem unbound_compute_raises_after_call:
  "(fget self = None \<and> fset self = Some s \<longrightarrow>
      cached_property_set self obj v w =
        (Inl NoneType_has_no_name,
         \<lparr>heap = s obj v (heap w), calls = calls w @ [Fset_call obj v]\<rparr>))
   \<and> (fget self = None \<and> fdel self = Some d \<longrightarrow>
        cached_property_delete self obj w =
          (Inl NoneType_has_no_name,
           \<lparr>heap = d obj (heap w), calls = calls w @ [Fdel_call obj]\<rparr>))"
  by (simp add: set_no_compute delete_no_compute)

text \<open>
  The instance of C10 on the descriptor with a write and a remove function only, on a
  fresh \<^verbatim>\<open>Test\<close> object: the write of 20 raises and \<^verbatim>\<open>_p\<close> is 20 afterwards; the delete
  raises and \<^verbatim>\<open>_p\<close> is 0 afterwards.
\<close>

theorem unbound_compute_raises_after_call_witness:
  "fget write_only = None \<and> fset write_only = Some Test_p_fset
   \<and> fdel write_only = Some reset_fdel
   \<and> heap Test_new 0 ''_p'' = Some 10
   \<and> fst (cached_property_set write_only 0 20 Test_new) = Inl NoneType_has_no_name
   \<and> heap (snd (cached_property_set write_only 0 20 Test_new)) 0 ''_p'' = Some 20
   \<and> calls (snd (cached_property_set write_only 0 20 Test_new)) = [Fset_call 0 20]
   \<and> fst (cached_property_delete write_only 0 Test_new) = Inl NoneType_has_no_name
   \<and> heap (snd (cached_property_delete write_only 0 Test_new)) 0 ''_p'' = Some 0
   \<and> calls (snd (cached_property_delete write_only 0 Test_new)) = [Fdel_call 0]"
proof -
  have fields: "fget write_only = None" "fset write_only = Some Test_p_fset"
    "fdel write_only = Some reset_fdel"
    by (simp_all add: write_only_def init_def)
  from unbound_compute_raises_after_call
         [of write_only Test_p_fset 0 20 Test_new reset_fdel] fields
  have "cached_property_set write_only 0 20 Test_new =
          (Inl NoneType_has_no_name,
           \<lparr>heap = Test_p_fset 0 20 (heap Test_new), calls = calls Test_new @ [Fset_call 0 20]\<rparr>)"
    and "cached_property_delete write_only 0 Test_new =
          (Inl NoneType_has_no_name,
           \<lparr>heap = reset_fdel 0 (heap Test_new), calls = calls Test_new @ [Fdel_call 0]\<rparr>)"
    by blast+
  with fields show ?thesis
    by (simp add: Test_p_fset_def reset_fdel_def Test_new_def)
qed

end
